theory Spec2Isabelle
  imports Main
begin

section \<open>Break actions and break classes (linebreak.go, maketables.go)\<close>

text \<open>
  \<^verbatim>\<open>type BreakAction int\<close> with its six constants, in the order of the \<^verbatim>\<open>iota\<close>
  block. \<open>BreakDirect\<close> is the zero value, which is what a named result of type
  \<^verbatim>\<open>BreakAction\<close> holds until it is assigned.
\<close>

datatype BreakAction =
    BreakDirect
  | BreakIndirect
  | BreakCombiningIndirect
  | BreakCombiningProhibited
  | BreakProhibited
  | BreakMandatory

text \<open>
  The line breaking classes. The generated file that declares them is produced by
  \<^verbatim>\<open>printClasses\<close> in maketables.go from the list \<^verbatim>\<open>classes\<close>: one constant per
  entry, numbered by \<^verbatim>\<open>iota\<close> in list order, so \<open>ClassOP\<close> is 0 (the zero value of the
  type), the paired classes are 0..28 and the classes resolved outside of the pair table
  follow.
\<close>

datatype BreakClass =
    ClassOP | ClassCL | ClassCP | ClassQU | ClassGL | ClassNS | ClassEX | ClassSY
  | ClassIS | ClassPR | ClassPO | ClassNU | ClassAL | ClassHL | ClassID | ClassIN
  | ClassHY | ClassBA | ClassBB | ClassB2 | ClassZW | ClassCM | ClassWJ | ClassH2
  | ClassH3 | ClassJL | ClassJV | ClassJT | ClassRI
  | ClassBK | ClassCR | ClassLF | ClassNL | ClassSG | ClassSP | ClassCB | ClassAI
  | ClassCJ | ClassSA | ClassXX

text \<open>The integer behind each class constant (its position in \<^verbatim>\<open>classes\<close>).\<close>

fun class_index :: "BreakClass \<Rightarrow> nat" where
  "class_index ClassOP = 0"
| "class_index ClassCL = 1"
| "class_index ClassCP = 2"
| "class_index ClassQU = 3"
| "class_index ClassGL = 4"
| "class_index ClassNS = 5"
| "class_index ClassEX = 6"
| "class_index ClassSY = 7"
| "class_index ClassIS = 8"
| "class_index ClassPR = 9"
| "class_index ClassPO = 10"
| "class_index ClassNU = 11"
| "class_index ClassAL = 12"
| "class_index ClassHL = 13"
| "class_index ClassID = 14"
| "class_index ClassIN = 15"
| "class_index ClassHY = 16"
| "class_index ClassBA = 17"
| "class_index ClassBB = 18"
| "class_index ClassB2 = 19"
| "class_index ClassZW = 20"
| "class_index ClassCM = 21"
| "class_index ClassWJ = 22"
| "class_index ClassH2 = 23"
| "class_index ClassH3 = 24"
| "class_index ClassJL = 25"
| "class_index ClassJV = 26"
| "class_index ClassJT = 27"
| "class_index ClassRI = 28"
| "class_index ClassBK = 29"
| "class_index ClassCR = 30"
| "class_index ClassLF = 31"
| "class_index ClassNL = 32"
| "class_index ClassSG = 33"
| "class_index ClassSP = 34"
| "class_index ClassCB = 35"
| "class_index ClassAI = 36"
| "class_index ClassCJ = 37"
| "class_index ClassSA = 38"
| "class_index ClassXX = 39"

section \<open>The pair table\<close>

type_synonym PairTable = "BreakAction list list"

text \<open>
  \<^verbatim>\<open>func (t PairTable) Action(before, after BreakClass) BreakAction\<close> on the raw integers
  of its arguments. Go evaluates the condition left to right and indexes the slices with
  a run-time bounds check, so a negative index that passes the \<^verbatim>\<open><\<close> test panics:
  \<open>None\<close> is that panic.
\<close>

definition Action_int :: "PairTable \<Rightarrow> int \<Rightarrow> int \<Rightarrow> BreakAction option" where
  "Action_int t before after =
     (if before < int (length t) then
        (if before < 0 then None
         else if after < int (length (t ! nat before)) then
           (if after < 0 then None else Some (t ! nat before ! nat after))
         else Some BreakProhibited)
      else Some BreakProhibited)"

text \<open>The same method on class constants, whose integers are never negative.\<close>

definition Action :: "PairTable \<Rightarrow> BreakClass \<Rightarrow> BreakClass \<Rightarrow> BreakAction" where
  "Action t before after =
     (if class_index before < length t
         \<and> class_index after < length (t ! class_index before)
      then t ! class_index before ! class_index after
      else BreakProhibited)"

abbreviation (input) di :: BreakAction where "di \<equiv> BreakDirect"
abbreviation (input) inn :: BreakAction where "inn \<equiv> BreakIndirect"
abbreviation (input) ci :: BreakAction where "ci \<equiv> BreakCombiningIndirect"
abbreviation (input) cp :: BreakAction where "cp \<equiv> BreakCombiningProhibited"
abbreviation (input) pr :: BreakAction where "pr \<equiv> BreakProhibited"
abbreviation (input) ex :: BreakAction where "ex \<equiv> BreakMandatory"

text \<open>\<^verbatim>\<open>pairTable\<close>, the example table of UAX 14, row by row (\<open>inn\<close> is the shortcut \<^verbatim>\<open>in\<close>).\<close>

definition pairTable :: PairTable where
  "pairTable = [
    [pr, pr, pr, pr, pr, pr, pr, pr, pr, pr, pr, pr, pr, pr, pr, pr, pr, pr, pr, pr, pr, cp, pr, pr, pr, pr, pr, pr, pr],
    [di, pr, pr, inn, inn, pr, pr, pr, pr, inn, inn, di, di, di, di, di, inn, inn, di, di, pr, ci, pr, di, di, di, di, di, di],
    [di, pr, pr, inn, inn, pr, pr, pr, pr, inn, inn, inn, inn, inn, di, di, inn, inn, di, di, pr, ci, pr, di, di, di, di, di, di],
    [pr, pr, pr, inn, inn, inn, pr, pr, pr, inn, inn, inn, inn, inn, inn, inn, inn, inn, inn, inn, pr, ci, pr, inn, inn, inn, inn, inn, inn],
    [inn, pr, pr, inn, inn, inn, pr, pr, pr, inn, inn, inn, inn, inn, inn, inn, inn, inn, inn, inn, pr, ci, pr, inn, inn, inn, inn, inn, inn],
    [di, pr, pr, inn, inn, inn, pr, pr, pr, di, di, di, di, di, di, di, inn, inn, di, di, pr, ci, pr, di, di, di, di, di, di],
    [di, pr, pr, inn, inn, inn, pr, pr, pr, di, di, di, di, di, di, di, inn, inn, di, di, pr, ci, pr, di, di, di, di, di, di],
    [di, pr, pr, inn, inn, inn, pr, pr, pr, di, di, inn, di, di, di, di, inn, inn, di, di, pr, ci, pr, di, di, di, di, di, di],
    [di, pr, pr, inn, inn, inn, pr, pr, pr, di, di, inn, inn, inn, di, di, inn, inn, di, di, pr, ci, pr, di, di, di, di, di, di],
    [inn, pr, pr, inn, inn, inn, pr, pr, pr, di, di, inn, inn, inn, inn, di, inn, inn, di, di, pr, ci, pr, inn, inn, inn, inn, inn, di],
    [inn, pr, pr, inn, inn, inn, pr, pr, pr, di, di, inn, inn, inn, di, di, inn, inn, di, di, pr, ci, pr, di, di, di, di, di, di],
    [inn, pr, pr, inn, inn, inn, pr, pr, pr, inn, inn, inn, inn, inn, di, inn, inn, inn, di, di, pr, ci, pr, di, di, di, di, di, di],
    [inn, pr, pr, inn, inn, inn, pr, pr, pr, di, di, inn, inn, inn, di, inn, inn, inn, di, di, pr, ci, pr, di, di, di, di, di, di],
    [inn, pr, pr, inn, inn, inn, pr, pr, pr, di, di, inn, inn, inn, di, inn, inn, inn, di, di, pr, ci, pr, di, di, di, di, di, di],
    [di, pr, pr, inn, inn, inn, pr, pr, pr, di, inn, di, di, di, di, inn, inn, inn, di, di, pr, ci, pr, di, di, di, di, di, di],
    [di, pr, pr, inn, inn, inn, pr, pr, pr, di, di, di, di, di, di, inn, inn, inn, di, di, pr, ci, pr, di, di, di, di, di, di],
    [di, pr, pr, inn, di, inn, pr, pr, pr, di, di, inn, di, di, di, di, inn, inn, di, di, pr, ci, pr, di, di, di, di, di, di],
    [di, pr, pr, inn, di, inn, pr, pr, pr, di, di, di, di, di, di, di, inn, inn, di, di, pr, ci, pr, di, di, di, di, di, di],
    [inn, pr, pr, inn, inn, inn, pr, pr, pr, inn, inn, inn, inn, inn, inn, inn, inn, inn, inn, inn, pr, ci, pr, inn, inn, inn, inn, inn, inn],
    [di, pr, pr, inn, inn, inn, pr, pr, pr, di, di, di, di, di, di, di, inn, inn, di, pr, pr, ci, pr, di, di, di, di, di, di],
    [di, di, di, di, di, di, di, di, di, di, di, di, di, di, di, di, di, di, di, di, pr, di, di, di, di, di, di, di, di],
    [inn, pr, pr, inn, inn, inn, pr, pr, pr, di, di, inn, inn, inn, di, inn, inn, inn, di, di, pr, ci, pr, di, di, di, di, di, di],
    [inn, pr, pr, inn, inn, inn, pr, pr, pr, inn, inn, inn, inn, inn, inn, inn, inn, inn, inn, inn, pr, ci, pr, inn, inn, inn, inn, inn, inn],
    [di, pr, pr, inn, inn, inn, pr, pr, pr, di, inn, di, di, di, di, inn, inn, inn, di, di, pr, ci, pr, di, di, di, inn, inn, di],
    [di, pr, pr, inn, inn, inn, pr, pr, pr, di, inn, di, di, di, di, inn, inn, inn, di, di, pr, ci, pr, di, di, di, di, inn, di],
    [di, pr, pr, inn, inn, inn, pr, pr, pr, di, inn, di, di, di, di, inn, inn, inn, di, di, pr, ci, pr, inn, inn, inn, inn, di, di],
    [di, pr, pr, inn, inn, inn, pr, pr, pr, di, inn, di, di, di, di, inn, inn, inn, di, di, pr, ci, pr, di, di, di, inn, inn, di],
    [di, pr, pr, inn, inn, inn, pr, pr, pr, di, inn, di, di, di, di, inn, inn, inn, di, di, pr, ci, pr, di, di, di, di, inn, di],
    [di, pr, pr, inn, inn, inn, pr, pr, pr, di, di, di, di, di, di, di, inn, inn, di, di, pr, ci, pr, di, di, di, di, di, inn]
  ]"

section \<open>The default class resolver\<close>

type_synonym rune = int

type_synonym ClassResolver = "rune \<Rightarrow> BreakClass"

text \<open>
  \<^verbatim>\<open>classResolver\<close>. The raw classification \<^verbatim>\<open>Class\<close> is generated from the Unicode
  data files and \<^verbatim>\<open>unicode.Is(unicode.Mn, r)\<close>, \<^verbatim>\<open>unicode.Is(unicode.Mc, r)\<close> are range
  tables of the Go library, so the three are parameters here: \<open>Class\<close>, \<open>isMn\<close> and
  \<open>isMc\<close>.
\<close>

definition classResolver ::
  "(rune \<Rightarrow> BreakClass) \<Rightarrow> (rune \<Rightarrow> bool) \<Rightarrow> (rune \<Rightarrow> bool) \<Rightarrow> rune \<Rightarrow> BreakClass" where
  "classResolver Class isMn isMc r =
     (let cls = Class r in
      if cls = ClassAI \<or> cls = ClassSG \<or> cls = ClassXX then ClassAL
      else if cls = ClassCJ then ClassNS
      else if cls = ClassSA then (if isMn r \<or> isMc r then ClassCM else ClassAL)
      else if cls = ClassCB then ClassID
      else cls)"

section \<open>The scanner\<close>

datatype error = EOF

record Scanner =
  Resolver :: ClassResolver
  Table :: PairTable
  runes :: "rune list"
  pos :: nat
  prevClass :: BreakClass
  err :: "error option"

text \<open>
  \<^verbatim>\<open>NewScanner\<close>: the default resolver and table, position 0, and the zero values of
  the two fields it leaves out.
\<close>

definition NewScanner ::
  "(rune \<Rightarrow> BreakClass) \<Rightarrow> (rune \<Rightarrow> bool) \<Rightarrow> (rune \<Rightarrow> bool) \<Rightarrow> rune list \<Rightarrow> Scanner" where
  "NewScanner Class isMn isMc r =
     \<lparr>Resolver = classResolver Class isMn isMc, Table = pairTable, runes = r,
      pos = 0, prevClass = ClassOP, err = None\<rparr>"

text \<open>
  A scanner whose exported fields \<^verbatim>\<open>Resolver\<close> and \<^verbatim>\<open>Table\<close> the caller has set to
  a resolver and a table of their own.
\<close>

definition ScannerWith :: "ClassResolver \<Rightarrow> PairTable \<Rightarrow> rune list \<Rightarrow> Scanner" where
  "ScannerWith res tbl r =
     \<lparr>Resolver = res, Table = tbl, runes = r, pos = 0, prevClass = ClassOP, err = None\<rparr>"

text \<open>
  \<^verbatim>\<open>nextClass\<close>: the results \<open>(cls, err)\<close> and the scanner after the call. On the two
  early returns \<open>cls\<close> is still the zero value \<open>ClassOP\<close>.
\<close>

definition nextClass :: "Scanner \<Rightarrow> (BreakClass \<times> error option) \<times> Scanner" where
  "nextClass s =
     (case err s of
        Some e \<Rightarrow> ((ClassOP, Some e), s)
      | None \<Rightarrow>
          if pos s \<ge> length (runes s) then ((ClassOP, Some EOF), s\<lparr>err := Some EOF\<rparr>)
          else
            let sot = (pos s = 0);
                cls = Resolver s (runes s ! pos s);
                s' = s\<lparr>pos := pos s + 1\<rparr>
            in if cls = ClassNL then ((ClassBK, None), s')
               else if cls = ClassSP then ((if sot then ClassWJ else cls, None), s')
               else if cls = ClassLF then ((if sot then ClassBK else cls, None), s')
               else ((cls, None), s'))"

text \<open>
  \<^verbatim>\<open>Next\<close>: the results \<open>(pos, action, err)\<close> and the scanner after the call. In the
  start-of-text branch the result \<open>pos\<close> is never assigned and stays 0; at the bare
  \<^verbatim>\<open>return\<close> of the guard on \<open>prevClass\<close> the result \<open>action\<close> has not been assigned
  and is the zero value \<open>BreakDirect\<close>.
\<close>

definition Next :: "Scanner \<Rightarrow> (nat \<times> BreakAction \<times> error option) \<times> Scanner" where
  "Next s =
     (if pos s = 0 then
        (case nextClass s of
           ((cls, Some e), s1) \<Rightarrow> ((0, BreakMandatory, Some e), s1)
         | ((cls, None), s1) \<Rightarrow> ((0, BreakProhibited, None), s1\<lparr>prevClass := cls\<rparr>))
      else
        (let p = pos s in
         case nextClass s of
           ((cls, Some e), s1) \<Rightarrow> ((p, BreakMandatory, Some e), s1)
         | ((cls, None), s1) \<Rightarrow>
             if \<not> (prevClass s1 \<noteq> ClassBK \<and> (prevClass s1 \<noteq> ClassCR \<or> cls = ClassLF))
             then ((p, BreakDirect, None), s1)
             else if cls = ClassBK \<or> cls = ClassLF
             then ((p, BreakProhibited, None), s1\<lparr>prevClass := ClassBK\<rparr>)
             else if cls = ClassCR
             then ((p, BreakProhibited, None), s1\<lparr>prevClass := ClassCR\<rparr>)
             else if cls = ClassSP
             then ((p, BreakProhibited, None), s1)
             else
               (case Action (Table s1) (prevClass s1) cls of
                  BreakIndirect \<Rightarrow>
                    ((p, if prevClass s1 = ClassSP then BreakIndirect else BreakProhibited, None),
                     s1\<lparr>prevClass := cls\<rparr>)
                | BreakCombiningIndirect \<Rightarrow>
                    (if prevClass s1 = ClassSP
                     then ((p, BreakCombiningIndirect, None), s1\<lparr>prevClass := cls\<rparr>)
                     else ((p, BreakProhibited, None), s1))
                | BreakCombiningProhibited \<Rightarrow>
                    (if prevClass s1 = ClassSP
                     then ((p, BreakProhibited, None), s1)
                     else ((p, BreakProhibited, None), s1\<lparr>prevClass := cls\<rparr>))
                | BreakDirect \<Rightarrow> ((p, BreakDirect, None), s1\<lparr>prevClass := cls\<rparr>)
                | BreakProhibited \<Rightarrow> ((p, BreakProhibited, None), s1\<lparr>prevClass := cls\<rparr>)
                | BreakMandatory \<Rightarrow> ((p, BreakMandatory, None), s1\<lparr>prevClass := cls\<rparr>))))"

section \<open>Calling the scanner repeatedly\<close>

text \<open>The scanner after \<open>n\<close> calls of \<^verbatim>\<open>Next\<close>, and what the first \<open>n\<close> calls returned.\<close>

fun run :: "nat \<Rightarrow> Scanner \<Rightarrow> Scanner" where
  "run 0 s = s"
| "run (Suc n) s = run n (snd (Next s))"

fun results :: "nat \<Rightarrow> Scanner \<Rightarrow> (nat \<times> BreakAction \<times> error option) list" where
  "results 0 s = []"
| "results (Suc n) s = fst (Next s) # results n (snd (Next s))"

text \<open>
  The loop of \<^verbatim>\<open>getActions\<close> in the package's test: call \<^verbatim>\<open>Next\<close>, append the action,
  stop at the first error. It returns the actions and the last position. Every call
  that reports no error has moved the position forward inside the input, which is why
  the loop ends.
\<close>

function getActions_loop :: "Scanner \<Rightarrow> BreakAction list \<Rightarrow> BreakAction list \<times> nat" where
  "getActions_loop s actions =
     (case Next s of
        ((p, a, e), s') \<Rightarrow>
          if e \<noteq> None then (actions @ [a], p) else getActions_loop s' (actions @ [a]))"
  by pat_completeness auto
termination
  by (relation "measure (\<lambda>(s, actions). length (runes s) - pos s)")
     (auto simp: Next_def nextClass_def Let_def
           split: if_splits option.splits BreakAction.splits)

definition getActions ::
  "(rune \<Rightarrow> BreakClass) \<Rightarrow> (rune \<Rightarrow> bool) \<Rightarrow> (rune \<Rightarrow> bool) \<Rightarrow> rune list
     \<Rightarrow> BreakAction list \<times> nat" where
  "getActions Class isMn isMc r = getActions_loop (NewScanner Class isMn isMc r) []"

text \<open>\<^verbatim>\<open>breakToInts\<close> of the test: which actions count as a break.\<close>

definition breakToInt :: "BreakAction \<Rightarrow> nat" where
  "breakToInt v =
     (if v = BreakDirect \<or> v = BreakIndirect \<or> v = BreakCombiningIndirect \<or> v = BreakMandatory
      then 1 else 0)"

definition breakToInts :: "BreakAction list \<Rightarrow> nat list" where
  "breakToInts breaks = map breakToInt breaks"

text \<open>
  Data for the examples below. \<open>exampleClass\<close> stands for the generated \<^verbatim>\<open>Class\<close> on the
  code points used there, with the classes LineBreak.txt gives them: LF, CR, SPACE,
  LEFT PARENTHESIS (OP), NEL (NL), COMBINING ACUTE ACCENT (CM), ZERO WIDTH SPACE (ZW), and
  AL for the letters. \<open>exampleMn\<close> and \<open>exampleMc\<close> stand for the two range tables: of
  these code points only U+0301 is a mark, and it is nonspacing.
\<close>

definition exampleClass :: "rune \<Rightarrow> BreakClass" where
  "exampleClass r =
     (if r = 0x0A then ClassLF
      else if r = 0x0D then ClassCR
      else if r = 0x20 then ClassSP
      else if r = 0x28 then ClassOP
      else if r = 0x85 then ClassNL
      else if r = 0x0301 then ClassCM
      else if r = 0x200B then ClassZW
      else ClassAL)"

definition exampleMn :: "rune \<Rightarrow> bool" where
  "exampleMn r = (r = 0x0301)"

definition exampleMc :: "rune \<Rightarrow> bool" where
  "exampleMc r = False"

definition exampleScanner :: "rune list \<Rightarrow> Scanner" where
  "exampleScanner r = NewScanner exampleClass exampleMn exampleMc r"

section \<open>Basic facts about one call\<close>

declare getActions_loop.simps [simp del]

lemmas example_defs =
  exampleScanner_def NewScanner_def classResolver_def exampleClass_def exampleMn_def
  exampleMc_def

lemma NewScanner_ScannerWith:
  "NewScanner Class isMn isMc r = ScannerWith (classResolver Class isMn isMc) pairTable r"
  by (simp add: NewScanner_def ScannerWith_def)

lemma Next_no_err:
  "Next s = ((p, a, None), s') \<Longrightarrow>
     err s = None \<and> pos s < length (runes s) \<and> pos s' = Suc (pos s) \<and> runes s' = runes s
     \<and> p = pos s \<and> err s' = None \<and> Resolver s' = Resolver s \<and> Table s' = Table s"
  by (auto simp: Next_def nextClass_def Let_def
           split: if_splits option.splits BreakAction.splits)

lemma Next_err:
  "Next s = ((p, a, Some e), s') \<Longrightarrow>
     a = BreakMandatory \<and> p = pos s \<and> err s' = Some e \<and> pos s' = pos s \<and> e = EOF
     \<and> (err s \<noteq> None \<or> length (runes s) \<le> pos s)
     \<and> s' = s\<lparr>err := Some e\<rparr>"
  by (cases e) (auto simp: Next_def nextClass_def Let_def
           split: if_splits option.splits BreakAction.splits)

lemma Next_frozen:
  "err s = Some e \<Longrightarrow> Next s = ((pos s, BreakMandatory, Some e), s)"
  by (auto simp: Next_def nextClass_def)

lemma run_frozen: "err s = Some e \<Longrightarrow> run n s = s"
  by (induction n) (simp_all add: Next_frozen)

lemma run_Suc_right: "run (Suc n) s = snd (Next (run n s))"
  by (induction n arbitrary: s) simp_all

lemma Next_at_end:
  "err s = None \<Longrightarrow> length (runes s) \<le> pos s \<Longrightarrow>
     Next s = ((pos s, BreakMandatory, Some EOF), s\<lparr>err := Some EOF\<rparr>)"
  by (auto simp: Next_def nextClass_def)

lemma nextClass_ok:
  "err s = None \<Longrightarrow> pos s < length (runes s) \<Longrightarrow>
     \<exists>cls. nextClass s = ((cls, None), s\<lparr>pos := Suc (pos s)\<rparr>)"
  by (simp add: nextClass_def Let_def)

lemma Next_progress:
  assumes "err s = None" "pos s < length (runes s)"
  shows "snd (snd (fst (Next s))) = None"
proof -
  from nextClass_ok [OF assms] obtain cls
    where nc: "nextClass s = ((cls, None), s\<lparr>pos := Suc (pos s)\<rparr>)" ..
  show ?thesis
    by (simp add: Next_def nc Let_def split: BreakAction.splits)
qed

lemma run_shape:
  "runes (run n (ScannerWith res tbl r)) = r
   \<and> pos (run n (ScannerWith res tbl r)) = min n (length r)
   \<and> err (run n (ScannerWith res tbl r)) = (if length r < n then Some EOF else None)"
proof (induction n)
  case 0
  show ?case by (simp add: ScannerWith_def)
next
  case (Suc n)
  let ?s = "run n (ScannerWith res tbl r)"
  from Suc have ru: "runes ?s = r" and po: "pos ?s = min n (length r)"
    and er: "err ?s = (if length r < n then Some EOF else None)" by simp_all
  consider (lt) "n < length r" | (eq) "n = length r" | (gt) "length r < n" by linarith
  then show ?case
  proof cases
    case lt
    with ru po er have "err ?s = None" "pos ?s < length (runes ?s)" by simp_all
    from Next_progress [OF this] obtain p a s' where N: "Next ?s = ((p, a, None), s')"
      by (cases "Next ?s") auto
    from Next_no_err [OF N] ru po lt N show ?thesis
      by (simp add: run_Suc_right del: run.simps)
  next
    case eq
    with ru po er have "err ?s = None" "length (runes ?s) \<le> pos ?s" by simp_all
    from Next_at_end [OF this] ru po eq show ?thesis
      by (simp add: run_Suc_right del: run.simps)
  next
    case gt
    with er have fr: "err ?s = Some EOF" by simp
    from Next_frozen [OF fr] fr ru po gt show ?thesis
      by (simp add: run_Suc_right del: run.simps)
  qed
qed

lemma getActions_loop_last:
  "fst (getActions_loop s acts) \<noteq> [] \<and> last (fst (getActions_loop s acts)) = BreakMandatory"
proof (induction s acts rule: getActions_loop.induct)
  case (1 s actions)
  obtain p a e s' where N: "Next s = ((p, a, e), s')" by (cases "Next s") auto
  show ?case
  proof (cases e)
    case None
    with N "1.IH" [of "(p, a, e)" s' p "(a, e)" a e] show ?thesis
      by (subst (1 2) getActions_loop.simps) simp
  next
    case (Some x)
    with N Next_err [of s p a x s'] show ?thesis
      by (subst (1 2) getActions_loop.simps) simp
  qed
qed

lemma getActions_loop_length:
  "err s = None \<Longrightarrow> pos s \<le> length (runes s) \<Longrightarrow>
     length (fst (getActions_loop s acts)) = length acts + (length (runes s) - pos s) + 1"
proof (induction s acts rule: getActions_loop.induct)
  case (1 s actions)
  obtain p a e s' where N: "Next s = ((p, a, e), s')" by (cases "Next s") auto
  show ?case
  proof (cases e)
    case None
    with N Next_no_err [of s p a s'] have *: "err s' = None" "pos s' \<le> length (runes s')"
      "length (runes s') - pos s' + 1 = length (runes s) - pos s" by auto
    from None N "1.IH" [of "(p, a, e)" s' p "(a, e)" a e] * show ?thesis
      by (subst getActions_loop.simps) simp
  next
    case (Some x)
    with N Next_err [of s p a x s'] "1.prems" show ?thesis
      by (subst getActions_loop.simps) simp
  qed
qed


lemma Next_prevClass_not_SP:
  "prevClass s \<noteq> ClassSP \<Longrightarrow> prevClass (snd (Next s)) \<noteq> ClassSP"
  by (auto simp: Next_def nextClass_def Let_def split: option.splits BreakAction.splits)

lemma Next_action_no_SP:
  "prevClass s \<noteq> ClassSP \<Longrightarrow>
     fst (snd (fst (Next s))) \<in> {BreakDirect, BreakProhibited, BreakMandatory}"
  by (auto simp: Next_def nextClass_def Let_def split: option.splits BreakAction.splits)

lemma run_prevClass_not_SP: "prevClass (run n (ScannerWith res tbl r)) \<noteq> ClassSP"
proof (induction n)
  case 0
  show ?case by (simp add: ScannerWith_def)
next
  case (Suc n)
  from Next_prevClass_not_SP [OF Suc] show ?case
    by (simp add: run_Suc_right del: run.simps)
qed


section \<open>The pair table lookup is total\<close>

lemma pairTable_size: "length pairTable = 29 \<and> (\<forall>row \<in> set pairTable. length row = 29)"
  by (simp add: pairTable_def)

lemma pairTable_excluded:
  "29 \<le> class_index before \<or> 29 \<le> class_index after \<Longrightarrow>
     Action pairTable before after = BreakProhibited"
  using pairTable_size by (auto simp: Action_def)

text \<open>
  Claim C8. \<^verbatim>\<open>PairTable.Action\<close> never faults on a pair of classes, whatever the size
  of the table: the bounds-checked lookup on the integers of two class constants always
  returns a value. That value is the stored entry when \<open>before\<close> is a row of the table
  and \<open>after\<close> a column of that row, and \<open>BreakProhibited\<close> in every other case, so a
  table smaller than the class set answers \<open>BreakProhibited\<close> for a class it leaves out
  on either axis.
\<close>

theorem Action_total:
  "Action_int t (int (class_index before)) (int (class_index after))
     = Some (Action t before after)
   \<and> Action t before after =
       (if class_index before < length t \<and> class_index after < length (t ! class_index before)
        then t ! class_index before ! class_index after else BreakProhibited)"
  by (simp add: Action_int_def Action_def)

section \<open>The default resolver\<close>

text \<open>
  Claim C9. The default resolver applies the generic resolution of rule LB1 to the raw
  class of a code point: AI, SG and XX become AL; CJ becomes NS; SA becomes CM when the
  code point is in the category Mn or Mc and AL otherwise; CB becomes ID; every other
  class is returned as it is.
\<close>

theorem classResolver_LB1:
  "(Class r = ClassAI \<or> Class r = ClassSG \<or> Class r = ClassXX
      \<longrightarrow> classResolver Class isMn isMc r = ClassAL)
   \<and> (Class r = ClassCJ \<longrightarrow> classResolver Class isMn isMc r = ClassNS)
   \<and> (Class r = ClassSA \<and> (isMn r \<or> isMc r) \<longrightarrow> classResolver Class isMn isMc r = ClassCM)
   \<and> (Class r = ClassSA \<and> \<not> (isMn r \<or> isMc r) \<longrightarrow> classResolver Class isMn isMc r = ClassAL)
   \<and> (Class r = ClassCB \<longrightarrow> classResolver Class isMn isMc r = ClassID)
   \<and> (Class r \<notin> {ClassAI, ClassSG, ClassXX, ClassCJ, ClassSA, ClassCB}
      \<longrightarrow> classResolver Class isMn isMc r = Class r)"
  by (simp add: classResolver_def Let_def)

theorem classResolver_LB1_witness:
  "classResolver (\<lambda>r. ClassAI) (\<lambda>r. False) (\<lambda>r. False) 0x3B1 = ClassAL
   \<and> classResolver (\<lambda>r. ClassCJ) (\<lambda>r. False) (\<lambda>r. False) 0x3041 = ClassNS
   \<and> classResolver (\<lambda>r. ClassSA) (\<lambda>r. r = 0x0E31) (\<lambda>r. False) 0x0E31 = ClassCM
   \<and> classResolver (\<lambda>r. ClassSA) (\<lambda>r. r = 0x0E31) (\<lambda>r. False) 0x0E01 = ClassAL
   \<and> classResolver (\<lambda>r. ClassCB) (\<lambda>r. False) (\<lambda>r. False) 0xFFFC = ClassID
   \<and> classResolver (\<lambda>r. ClassNU) (\<lambda>r. False) (\<lambda>r. False) 0x31 = ClassNU"
  using classResolver_LB1 [of "\<lambda>r. ClassAI" "0x3B1" "\<lambda>r. False" "\<lambda>r. False"]
        classResolver_LB1 [of "\<lambda>r. ClassCJ" "0x3041" "\<lambda>r. False" "\<lambda>r. False"]
        classResolver_LB1 [of "\<lambda>r. ClassSA" "0x0E31" "\<lambda>r. r = 0x0E31" "\<lambda>r. False"]
        classResolver_LB1 [of "\<lambda>r. ClassSA" "0x0E01" "\<lambda>r. r = 0x0E31" "\<lambda>r. False"]
        classResolver_LB1 [of "\<lambda>r. ClassCB" "0xFFFC" "\<lambda>r. False" "\<lambda>r. False"]
        classResolver_LB1 [of "\<lambda>r. ClassNU" "0x31" "\<lambda>r. False" "\<lambda>r. False"]
  by simp

section \<open>End of input\<close>

text \<open>
  Claim C7. Once a call of \<^verbatim>\<open>Next\<close> has reported end of input, the scanner is frozen:
  that call returned \<open>BreakMandatory\<close> with \<open>EOF\<close>, and after any number of further
  calls the next call returns the same position, \<open>BreakMandatory\<close> and the same error,
  and leaves the scanner as the first such call left it.
\<close>

theorem Next_EOF_idempotent:
  assumes "Next s = ((p, a, Some e), s')"
  shows "a = BreakMandatory \<and> e = EOF
         \<and> (\<forall>n. Next (run n s') = ((p, BreakMandatory, Some e), s'))"
proof -
  from Next_err [OF assms] have a: "a = BreakMandatory" and e: "e = EOF"
    and p: "p = pos s'" and fr: "err s' = Some e"
    by simp_all
  have "Next (run n s') = ((p, BreakMandatory, Some e), s')" for n
    using run_frozen [OF fr, of n] Next_frozen [OF fr] p by simp
  with a e show ?thesis by simp
qed

theorem Next_EOF_idempotent_witness:
  "Next (exampleScanner [0x61])
       = ((0, BreakProhibited, None), run 1 (exampleScanner [0x61]))
   \<and> Next (run 1 (exampleScanner [0x61]))
       = ((1, BreakMandatory, Some EOF), run 2 (exampleScanner [0x61]))
   \<and> (\<forall>n. Next (run n (run 2 (exampleScanner [0x61])))
       = ((1, BreakMandatory, Some EOF), run 2 (exampleScanner [0x61])))"
proof -
  have 1: "Next (exampleScanner [0x61])
       = ((0, BreakProhibited, None), run 1 (exampleScanner [0x61]))"
    by (simp add: example_defs Next_def nextClass_def)
  have 2: "Next (run 1 (exampleScanner [0x61]))
       = ((1, BreakMandatory, Some EOF), run 2 (exampleScanner [0x61]))"
    by (simp add: example_defs Next_def nextClass_def numeral_2_eq_2)
  from 1 2 Next_EOF_idempotent [OF 2] show ?thesis by simp
qed

text \<open>
  Claim C6. For a scanner over any input, with any resolver and any table, the call
  that follows \<open>n\<close> earlier calls returns an error exactly when the input is exhausted,
  that is when the position has reached the length of the input, which is the case
  exactly when \<open>n\<close> is at least that length. The only error is \<open>EOF\<close>, and it comes with
  the action \<open>BreakMandatory\<close>. The loop that collects the actions up to the first error
  ends, after one call per code point and one more, and the last action it collects is
  \<open>BreakMandatory\<close>.
\<close>

theorem Next_error_iff_exhausted:
  assumes "Next (run n (ScannerWith res tbl r)) = ((p, a, e), s')"
  shows "(e \<noteq> None) = (length r \<le> pos (run n (ScannerWith res tbl r)))
       \<and> (e \<noteq> None) = (length r \<le> n)
       \<and> (e \<noteq> None \<longrightarrow> e = Some EOF \<and> a = BreakMandatory)
       \<and> last (fst (getActions_loop (ScannerWith res tbl r) [])) = BreakMandatory
       \<and> length (fst (getActions_loop (ScannerWith res tbl r) [])) = Suc (length r)"
proof -
  let ?s = "run n (ScannerWith res tbl r)"
  have sh: "runes ?s = r" "pos ?s = min n (length r)"
    "err ?s = (if length r < n then Some EOF else None)"
    using run_shape [of n res tbl r] by simp_all
  have 1: "(e \<noteq> None) = (length r \<le> n)"
  proof (cases e)
    case None
    with assms Next_no_err [of ?s p a s'] sh show ?thesis by auto
  next
    case (Some x)
    with assms Next_err [of ?s p a x s'] sh show ?thesis by (auto split: if_splits)
  qed
  have 2: "(length r \<le> pos ?s) = (length r \<le> n)" using sh by auto
  have 3: "e \<noteq> None \<longrightarrow> e = Some EOF \<and> a = BreakMandatory"
    using assms Next_err [of ?s p a _ s'] by auto
  have 4: "length (fst (getActions_loop (ScannerWith res tbl r) [])) = Suc (length r)"
    using getActions_loop_length [of "ScannerWith res tbl r" "[]"] by (simp add: ScannerWith_def)
  from 1 2 3 4 getActions_loop_last [of "ScannerWith res tbl r" "[]"] show ?thesis by simp
qed

theorem Next_error_iff_exhausted_witness:
  "Next (run 1 (exampleScanner [0x61]))
      = ((1, BreakMandatory, Some EOF), run 2 (exampleScanner [0x61]))
   \<and> (Some EOF \<noteq> None) = (length [0x61 :: rune] \<le> pos (run 1 (exampleScanner [0x61])))
   \<and> last (fst (getActions_loop (exampleScanner [0x61]) [])) = BreakMandatory
   \<and> length (fst (getActions_loop (exampleScanner [0x61]) [])) = 2"
proof -
  have sc: "exampleScanner [0x61]
      = ScannerWith (classResolver exampleClass exampleMn exampleMc) pairTable [0x61]"
    by (simp add: exampleScanner_def NewScanner_ScannerWith)
  have N: "Next (run 1 (exampleScanner [0x61]))
      = ((1, BreakMandatory, Some EOF), run 2 (exampleScanner [0x61]))"
    by (simp add: example_defs Next_def nextClass_def numeral_2_eq_2)
  from N Next_error_iff_exhausted [OF N [unfolded sc]] show ?thesis
    by (simp add: sc)
qed

section \<open>The recorded class is never SP\<close>

text \<open>
  Claim C4. Whatever the input, the resolver and the table, the class the scanner has
  recorded as \<open>prevClass\<close> is never \<open>ClassSP\<close> when \<^verbatim>\<open>Next\<close> is called, so it is not
  \<open>ClassSP\<close> at a lookup in the pair table; and the action \<^verbatim>\<open>Next\<close> returns is one of
  \<open>BreakDirect\<close>, \<open>BreakProhibited\<close> and \<open>BreakMandatory\<close>, never \<open>BreakIndirect\<close>,
  \<open>BreakCombiningIndirect\<close> or \<open>BreakCombiningProhibited\<close>.
\<close>

theorem prevClass_never_SP:
  assumes "Next (run n (ScannerWith res tbl r)) = ((p, a, e), s')"
  shows "prevClass (run n (ScannerWith res tbl r)) \<noteq> ClassSP
       \<and> a \<in> {BreakDirect, BreakProhibited, BreakMandatory}
       \<and> a \<noteq> BreakIndirect \<and> a \<noteq> BreakCombiningIndirect \<and> a \<noteq> BreakCombiningProhibited"
  using assms run_prevClass_not_SP [of n res tbl r]
    Next_action_no_SP [of "run n (ScannerWith res tbl r)"]
  by auto

theorem prevClass_never_SP_witness:
  "fst (Next (run 2 (exampleScanner [0x61, 0x20, 0x62]))) = (2, BreakProhibited, None)
   \<and> prevClass (run 2 (exampleScanner [0x61, 0x20, 0x62])) \<noteq> ClassSP
   \<and> prevClass (run 2 (exampleScanner [0x61, 0x20, 0x62])) = ClassAL"
proof -
  have sc: "exampleScanner [0x61, 0x20, 0x62]
      = ScannerWith (classResolver exampleClass exampleMn exampleMc) pairTable [0x61, 0x20, 0x62]"
    by (simp add: exampleScanner_def NewScanner_ScannerWith)
  have F: "fst (Next (run 2 (exampleScanner [0x61, 0x20, 0x62]))) = (2, BreakProhibited, None)"
    by code_simp
  then have N: "Next (run 2 (exampleScanner [0x61, 0x20, 0x62]))
      = ((2, BreakProhibited, None), snd (Next (run 2 (exampleScanner [0x61, 0x20, 0x62]))))"
    by (simp add: prod_eq_iff)
  have P: "prevClass (run 2 (exampleScanner [0x61, 0x20, 0x62])) = ClassAL"
    by code_simp
  from F P prevClass_never_SP [OF N [unfolded sc]] show ?thesis
    by (simp add: sc)
qed

section \<open>Classes rewritten by \<^verbatim>\<open>nextClass\<close>\<close>

text \<open>
  Claim C10. When the first code point of the input resolves to SP, \<^verbatim>\<open>nextClass\<close>
  returns WJ for it and the first call of \<^verbatim>\<open>Next\<close> records WJ as \<open>prevClass\<close>; an SP
  at any later position is returned as SP. A code point that resolves to NL is returned
  as BK at every position, the first one included.
\<close>

theorem nextClass_start_of_text:
  "(err s = None \<and> pos s = 0 \<and> runes s \<noteq> [] \<and> Resolver s (runes s ! 0) = ClassSP
      \<longrightarrow> fst (nextClass s) = (ClassWJ, None) \<and> prevClass (snd (Next s)) = ClassWJ)
   \<and> (err s = None \<and> 0 < pos s \<and> pos s < length (runes s)
        \<and> Resolver s (runes s ! pos s) = ClassSP
      \<longrightarrow> fst (nextClass s) = (ClassSP, None))
   \<and> (err s = None \<and> pos s < length (runes s) \<and> Resolver s (runes s ! pos s) = ClassNL
      \<longrightarrow> fst (nextClass s) = (ClassBK, None))"
  by (auto simp: Next_def nextClass_def Let_def)

theorem nextClass_start_of_text_witness:
  "fst (nextClass (exampleScanner [0x20, 0x61])) = (ClassWJ, None)
   \<and> prevClass (snd (Next (exampleScanner [0x20, 0x61]))) = ClassWJ
   \<and> fst (nextClass (run 1 (exampleScanner [0x61, 0x20]))) = (ClassSP, None)
   \<and> fst (nextClass (exampleScanner [0x85, 0x61])) = (ClassBK, None)
   \<and> fst (nextClass (run 1 (exampleScanner [0x61, 0x85]))) = (ClassBK, None)"
  using nextClass_start_of_text [of "exampleScanner [0x20, 0x61]"]
        nextClass_start_of_text [of "run 1 (exampleScanner [0x61, 0x20])"]
        nextClass_start_of_text [of "exampleScanner [0x85, 0x61]"]
        nextClass_start_of_text [of "run 1 (exampleScanner [0x61, 0x85])"]
  by (simp add: example_defs Next_def nextClass_def)

section \<open>The guard after a hard break\<close>




text \<open>
  Claim C5 on the code. The claim is that LATIN SMALL LETTER X, CR, LF, LATIN SMALL
  LETTER Y gives exactly one mandatory break, at the CR LF boundary. The calls for the
  CR and for the LF report \<open>BreakProhibited\<close>, and the call for the letter after the LF
  leaves \<^verbatim>\<open>Next\<close> at the guard with its result \<open>action\<close> unassigned: the break at position
  3 is reported as \<open>BreakDirect\<close>, and the only \<open>BreakMandatory\<close> of the scan is the one
  at the end of input. The recorded class stays BK from then on, so with one more
  letter after the Y that letter is reported as a break too.
\<close>

theorem crlf_break_is_Direct:
  "results 5 (exampleScanner [0x78, 0x0D, 0x0A, 0x79])
     = [(0, BreakProhibited, None), (1, BreakProhibited, None), (2, BreakProhibited, None),
        (3, BreakDirect, None), (4, BreakMandatory, Some EOF)]
   \<and> getActions exampleClass exampleMn exampleMc [0x78, 0x0D, 0x0A, 0x79]
     = ([BreakProhibited, BreakProhibited, BreakProhibited, BreakDirect, BreakMandatory], 4)
   \<and> getActions exampleClass exampleMn exampleMc [0x78, 0x0D, 0x0A, 0x79, 0x7A]
     = ([BreakProhibited, BreakProhibited, BreakProhibited, BreakDirect, BreakDirect,
         BreakMandatory], 5)
   \<and> breakToInts (fst (getActions exampleClass exampleMn exampleMc
                          [0x78, 0x0D, 0x0A, 0x79, 0x7A])) = [0, 0, 0, 1, 1, 1]"
  by code_simp

section \<open>Combining marks\<close>






section \<open>Spaces between two characters\<close>

text \<open>
  Claim C1 on the code. The default table gives \<open>BreakIndirect\<close> for the pair AL, AL.
  Two letters next to each other give \<open>BreakProhibited\<close> at the second letter; with one
  space between them the second letter still gets \<open>BreakProhibited\<close>, not
  \<open>BreakIndirect\<close>, and with two spaces as well: the space is never recorded as the
  class before, so the test for SP in the resolution of \<open>BreakIndirect\<close> never holds.
\<close>

theorem space_gives_no_Indirect:
  "Action pairTable ClassAL ClassAL = BreakIndirect
   \<and> getActions exampleClass exampleMn exampleMc [0x61, 0x62]
       = ([BreakProhibited, BreakProhibited, BreakMandatory], 2)
   \<and> getActions exampleClass exampleMn exampleMc [0x61, 0x20, 0x62]
       = ([BreakProhibited, BreakProhibited, BreakProhibited, BreakMandatory], 3)
   \<and> getActions exampleClass exampleMn exampleMc [0x61, 0x20, 0x20, 0x62]
       = ([BreakProhibited, BreakProhibited, BreakProhibited, BreakProhibited,
           BreakMandatory], 4)"
  by code_simp

end
